theory Spec2Isabelle
  imports Complex_Main
begin

section \<open>Python values: exceptions and the decimal rendering of integers\<close>

text \<open>
  The callbacks of \<^verbatim>\<open>torchtnt/framework/callbacks\<close> are embedded as functions that
  take the objects they read and the world they may change, and return the outcome of the
  call (an exception as \<open>Inl\<close>, a normal return as \<open>Inr\<close>) with the world afterwards.
  Durations are Python numbers; they are embedded as reals.
\<close>

datatype error =
    ValueError string
  | AssertionError
  | ZeroDivisionError

text \<open>What an f-string writes for an \<^verbatim>\<open>int\<close>: its decimal digits, with a leading minus sign.\<close>

definition digit :: "nat \<Rightarrow> char" where
  "digit d = ''0123456789'' ! d"

fun str_nat :: "nat \<Rightarrow> string" where
  "str_nat n = (if n < 10 then [digit n] else str_nat (n div 10) @ [digit (n mod 10)])"

declare str_nat.simps [simp del]

definition str_int :: "int \<Rightarrow> string" where
  "str_int i = (if i < 0 then CHR ''-'' # str_nat (nat (- i)) else str_nat (nat i))"

text \<open>
  \<^verbatim>\<open>none_throws\<close> of pyre_extensions: the value inside an \<^verbatim>\<open>Optional\<close>, or an
  \<^verbatim>\<open>AssertionError\<close> when it is \<^verbatim>\<open>None\<close>.
\<close>

definition none_throws :: "'a option \<Rightarrow> error + 'a" where
  "none_throws x = (case x of None \<Rightarrow> Inl AssertionError | Some v \<Rightarrow> Inr v)"

section \<open>The execution state, the units and the metric sink\<close>

text \<open>
  \<^verbatim>\<open>timer.recorded_durations\<close> is a dict from a category name to the list of its
  samples. A \<^verbatim>\<open>State\<close> holds up to three phase states, each with its
  \<^verbatim>\<open>iteration_timer\<close>; a unit carries the progress counters of its phase.
\<close>

datatype ActivePhase = TRAIN | EVALUATE | PREDICT

record Timer =
  recorded_durations :: "string \<Rightarrow> real list option"

record PhaseState =
  iteration_timer :: Timer

record State =
  active_phase :: ActivePhase
  train_state :: "PhaseState option"
  eval_state :: "PhaseState option"
  predict_state :: "PhaseState option"

record Progress =
  num_steps_completed :: int

record TrainUnit =
  train_progress :: Progress

record EvalUnit =
  eval_progress :: Progress

record PredictUnit =
  predict_progress :: Progress

text \<open>
  The sink is either a \<^verbatim>\<open>SummaryWriter\<close> or a \<^verbatim>\<open>MetricLogger\<close>; what
  \<^verbatim>\<open>isinstance(self._logger, SummaryWriter)\<close> tests is its class. A call the sink
  receives is recorded with the method invoked and its three arguments.
\<close>

datatype sink_class = SummaryWriter | MetricLogger

datatype sink_call =
    Add_scalar string real int
  | Log string real int

fun call_args :: "sink_call \<Rightarrow> string \<times> real \<times> int" where
  "call_args (Add_scalar name v step) = (name, v, step)"
| "call_args (Log name v step) = (name, v, step)"

text \<open>
  Everything a hook could change: the execution state it is handed (with the duration
  recorders inside) and the calls the sink has received so far, oldest first. The sink is
  an external object; a call to it is recorded and taken to return.
\<close>

record world =
  exec_state :: State
  sink_calls :: "sink_call list"

section \<open>TimeWaitForBatchLogger\<close>

text \<open>
  The attributes \<^verbatim>\<open>_logger\<close> (the sink, by its class; the calls it receives are in the
  world) and \<^verbatim>\<open>_log_every_n_steps\<close>.
\<close>

record TimeWaitForBatchLogger =
  logger :: sink_class
  log_every_n_steps :: int

text \<open>\<^verbatim>\<open>TimeWaitForBatchLogger.__init__\<close>\<close>

definition TimeWaitForBatchLogger_init ::
  "sink_class \<Rightarrow> int \<Rightarrow> world \<Rightarrow> (error + TimeWaitForBatchLogger) \<times> world" where
  "TimeWaitForBatchLogger_init lg n w =
     (if n < 1
      then (Inl (ValueError (''log_every_n_steps must be at least 1, got '' @ str_int n)), w)
      else (Inr \<lparr>logger = lg, log_every_n_steps = n\<rparr>, w))"

text \<open>
  Modelled from the spec: \<^verbatim>\<open>rank_zero_fn\<close> of \<^verbatim>\<open>torchtnt.utils.distributed\<close> is
  imported by the callback but its definition is not among the sources. The spec has the
  per-step evaluation "restricted to execute only on a single designated coordinating
  process when running in a multi-process distributed context (a no-op elsewhere)": the
  decorated function runs on the process of global rank 0 and returns \<^verbatim>\<open>None\<close> at once
  on every other one. The rank of the calling process is a parameter.
\<close>

definition rank_zero_fn ::
  "nat \<Rightarrow> (world \<Rightarrow> (error + unit) \<times> world) \<Rightarrow> world \<Rightarrow> (error + unit) \<times> world" where
  "rank_zero_fn rank fn w = (if rank = 0 then fn w else (Inr (), w))"

text \<open>
  The body of \<^verbatim>\<open>_log_step_metrics\<close>. Python's \<^verbatim>\<open>%\<close> raises on a zero divisor, and
  agrees with \<open>mod\<close> on every other one. \<^verbatim>\<open>not data_wait_time_list\<close> holds for
  \<^verbatim>\<open>None\<close> and for the empty list; past it, index \<^verbatim>\<open>-1\<close> is the last element.
\<close>

definition log_step_metrics_body ::
  "TimeWaitForBatchLogger \<Rightarrow> Timer \<Rightarrow> string \<Rightarrow> int \<Rightarrow> world \<Rightarrow> (error + unit) \<times> world" where
  "log_step_metrics_body self timer label step w =
     (if log_every_n_steps self = 0 then (Inl ZeroDivisionError, w)
      else if step mod log_every_n_steps self \<noteq> 0 then (Inr (), w)
      else
        (case recorded_durations timer ''data_wait_time'' of
           None \<Rightarrow> (Inr (), w)
         | Some data_wait_time_list \<Rightarrow>
             if data_wait_time_list = [] then (Inr (), w)
             else if logger self = SummaryWriter
             then (Inr (),
                   w\<lparr>sink_calls := sink_calls w @
                        [Add_scalar label (last data_wait_time_list) step]\<rparr>)
             else (Inr (),
                   w\<lparr>sink_calls := sink_calls w @
                        [Log label (last data_wait_time_list) step]\<rparr>)))"

text \<open>\<^verbatim>\<open>_log_step_metrics\<close> as the class has it, under its decorator.\<close>

definition log_step_metrics ::
  "TimeWaitForBatchLogger \<Rightarrow> nat \<Rightarrow> Timer \<Rightarrow> string \<Rightarrow> int \<Rightarrow> world \<Rightarrow> (error + unit) \<times> world" where
  "log_step_metrics self rank timer label step =
     rank_zero_fn rank (log_step_metrics_body self timer label step)"

text \<open>
  The three hooks. The arguments of the call are evaluated first, so \<^verbatim>\<open>none_throws\<close>
  raises before the decorator looks at the rank.
\<close>

definition on_train_step_end ::
  "TimeWaitForBatchLogger \<Rightarrow> nat \<Rightarrow> TrainUnit \<Rightarrow> world \<Rightarrow> (error + unit) \<times> world" where
  "on_train_step_end self rank u w =
     (case none_throws (train_state (exec_state w)) of
        Inl e \<Rightarrow> (Inl e, w)
      | Inr ps \<Rightarrow>
          log_step_metrics self rank (iteration_timer ps) ''Time Wait For Batch (Train)''
            (num_steps_completed (train_progress u)) w)"

definition on_eval_step_end ::
  "TimeWaitForBatchLogger \<Rightarrow> nat \<Rightarrow> EvalUnit \<Rightarrow> world \<Rightarrow> (error + unit) \<times> world" where
  "on_eval_step_end self rank u w =
     (case none_throws (eval_state (exec_state w)) of
        Inl e \<Rightarrow> (Inl e, w)
      | Inr ps \<Rightarrow>
          log_step_metrics self rank (iteration_timer ps) ''Time Wait For Batch (Eval)''
            (num_steps_completed (eval_progress u)) w)"

definition on_predict_step_end ::
  "TimeWaitForBatchLogger \<Rightarrow> nat \<Rightarrow> PredictUnit \<Rightarrow> world \<Rightarrow> (error + unit) \<times> world" where
  "on_predict_step_end self rank u w =
     (case none_throws (predict_state (exec_state w)) of
        Inl e \<Rightarrow> (Inl e, w)
      | Inr ps \<Rightarrow>
          log_step_metrics self rank (iteration_timer ps) ''Time Wait For Batch (Predict)''
            (num_steps_completed (predict_progress u)) w)"

section \<open>ThroughputLogger\<close>

text \<open>
  Modelled from the spec: the class \<^verbatim>\<open>ThroughputLogger\<close> of
  \<^verbatim>\<open>torchtnt/framework/callbacks/throughput_logger.py\<close> is not among the sources; its
  test \<^verbatim>\<open>test_throughput_logger.py\<close> is. The object holds the Throughput Specification,
  "a mapping from a human-readable unit name to a positive integer count-per-batch" (a dict,
  kept as the list of its items in insertion order), and the Logging Cadence.
\<close>

record ThroughputLogger =
  throughput_per_batch :: "(string \<times> int) list"
  throughput_log_every_n_steps :: int

text \<open>
  Modelled from the spec: the validation of the specification's values, "fails with an
  input-validation error if any specification value is less than 1, naming the offending
  key and value". The wording of the message is the one the test expects.
\<close>

fun check_items :: "(string \<times> int) list \<Rightarrow> error option" where
  "check_items [] = None"
| "check_items ((item, num_items) # rest) =
     (if num_items < 1
      then Some (ValueError (''throughput_per_batch item '' @ item @
                   '' must be at least 1, got '' @ str_int num_items))
      else check_items rest)"

text \<open>
  Modelled from the spec: the constructor of the Throughput Reporter. Its three checks are
  made in the order of the spec's construction contract: the empty specification, the
  specification's values, the cadence; the messages are those of \<^verbatim>\<open>test_input_validation\<close>.
\<close>

definition ThroughputLogger_init ::
  "(string \<times> int) list \<Rightarrow> int \<Rightarrow> world \<Rightarrow> (error + ThroughputLogger) \<times> world" where
  "ThroughputLogger_init spec n w =
     (if spec = [] then (Inl (ValueError ''throughput_per_batch cannot be empty''), w)
      else
        (case check_items spec of
           Some e \<Rightarrow> (Inl e, w)
         | None \<Rightarrow>
             if n < 1
             then (Inl (ValueError (''log_every_n_steps must be at least 1, got '' @ str_int n)), w)
             else (Inr \<lparr>throughput_per_batch = spec, throughput_log_every_n_steps = n\<rparr>, w)))"

text \<open>
  Modelled from the spec: "the phase label used in emitted metric names is derived from
  which of train/eval/predict state is active (e.g., "Train", "Eval", "Predict")".
\<close>

fun phase_label :: "ActivePhase \<Rightarrow> string" where
  "phase_label TRAIN = ''Train''"
| "phase_label EVALUATE = ''Eval''"
| "phase_label PREDICT = ''Predict''"

text \<open>
  Modelled from the spec: the category \<^verbatim>\<open>"{phase}_iteration_time"\<close> of the active phase, as
  the tests spell it.
\<close>

fun iteration_time_key :: "ActivePhase \<Rightarrow> string" where
  "iteration_time_key TRAIN = ''train_iteration_time''"
| "iteration_time_key EVALUATE = ''eval_iteration_time''"
| "iteration_time_key PREDICT = ''predict_iteration_time''"

text \<open>
  Modelled from the spec: "look up the Duration Recorder for the active phase", through the
  phase state of the phase that is active.
\<close>

definition active_phase_state :: "State \<Rightarrow> PhaseState option" where
  "active_phase_state st =
     (case active_phase st of
        TRAIN \<Rightarrow> train_state st
      | EVALUATE \<Rightarrow> eval_state st
      | PREDICT \<Rightarrow> predict_state st)"

text \<open>
  Modelled from the spec: reading a category of the Duration Recorder. A missing sequence is
  among the spec's silent skips, so it reads as the empty sequence.
\<close>

definition samples :: "Timer \<Rightarrow> string \<Rightarrow> real list" where
  "samples timer key = (case recorded_durations timer key of None \<Rightarrow> [] | Some xs \<Rightarrow> xs)"

text \<open>
  Modelled from the spec: the metric name
  \<^verbatim>\<open>"{Phase}: {unit_name} per second (step granularity)"\<close>.
\<close>

definition metric_name :: "ActivePhase \<Rightarrow> string \<Rightarrow> string" where
  "metric_name phase unit_name =
     phase_label phase @ '': '' @ unit_name @ '' per second (step granularity)''"

text \<open>
  Modelled from the spec: the per-step evaluation of the Throughput Reporter
  (\<^verbatim>\<open>_maybe_log_for_step\<close> in the test), steps 1 to 6 of its section 4.1 in their order.
  The wait-time index is \<^verbatim>\<open>[-2]\<close> at step-end and \<^verbatim>\<open>[-1]\<close> at step-start; both are in
  range past the check of step 3. The spec does not say what happens when the active phase
  has no phase state; the model raises there as \<^verbatim>\<open>none_throws\<close> does in the sibling
  callback, and no statement below depends on it. Every metric goes to the sink's
  \<^verbatim>\<open>log\<close>. The division is the one of the reals.
\<close>

definition maybe_log_for_step ::
  "ThroughputLogger \<Rightarrow> int \<Rightarrow> bool \<Rightarrow> world \<Rightarrow> (error + unit) \<times> world" where
  "maybe_log_for_step self step_logging_for is_step_end_hook w =
     (if throughput_log_every_n_steps self = 0 then (Inl ZeroDivisionError, w)
      else if step_logging_for mod throughput_log_every_n_steps self \<noteq> 0 then (Inr (), w)
      else
        (case none_throws (active_phase_state (exec_state w)) of
           Inl e \<Rightarrow> (Inl e, w)
         | Inr ps \<Rightarrow>
             (let phase = active_phase (exec_state w);
                  time_list = samples (iteration_timer ps) (iteration_time_key phase);
                  data_wait_time_list = samples (iteration_timer ps) ''data_wait_time''
              in if time_list = [] \<or> length data_wait_time_list < 2 then (Inr (), w)
                 else
                   (let total_time =
                          (if is_step_end_hook
                           then data_wait_time_list ! (length data_wait_time_list - 2)
                           else data_wait_time_list ! (length data_wait_time_list - 1))
                          + time_list ! (length time_list - 1)
                    in if total_time \<le> 0 then (Inr (), w)
                       else (Inr (),
                             w\<lparr>sink_calls := sink_calls w @
                                 map (\<lambda>(item, num_items).
                                        Log (metric_name phase item)
                                            (real_of_int num_items / total_time)
                                            step_logging_for)
                                     (throughput_per_batch self)\<rparr>)))))"

section \<open>Concrete objects\<close>

text \<open>
  A state in which all three phases are running, each with two recorded waits for a batch;
  units at step 4; a sink that has received nothing yet.
\<close>

definition timer0 :: Timer where
  "timer0 = \<lparr>recorded_durations = [''data_wait_time'' \<mapsto> [1, 4]]\<rparr>"

definition state0 :: State where
  "state0 = \<lparr>active_phase = TRAIN,
             train_state = Some \<lparr>iteration_timer = timer0\<rparr>,
             eval_state = Some \<lparr>iteration_timer = timer0\<rparr>,
             predict_state = Some \<lparr>iteration_timer = timer0\<rparr>\<rparr>"

definition world0 :: world where
  "world0 = \<lparr>exec_state = state0, sink_calls = []\<rparr>"

definition train_unit0 :: TrainUnit where
  "train_unit0 = \<lparr>train_progress = \<lparr>num_steps_completed = 4\<rparr>\<rparr>"

definition eval_unit0 :: EvalUnit where
  "eval_unit0 = \<lparr>eval_progress = \<lparr>num_steps_completed = 4\<rparr>\<rparr>"

definition predict_unit0 :: PredictUnit where
  "predict_unit0 = \<lparr>predict_progress = \<lparr>num_steps_completed = 4\<rparr>\<rparr>"

definition logger0 :: TimeWaitForBatchLogger where
  "logger0 = \<lparr>logger = MetricLogger, log_every_n_steps = 2\<rparr>"

text \<open>A unit at step 3, which the cadence 2 of \<open>logger0\<close> does not divide.\<close>

definition train_unit1 :: TrainUnit where
  "train_unit1 = \<lparr>train_progress = \<lparr>num_steps_completed = 3\<rparr>\<rparr>"

text \<open>
  A state whose eval timer has recorded no \<^verbatim>\<open>"data_wait_time"\<close> category and whose predict
  timer has recorded an empty one; a state with no phase running.
\<close>

definition state1 :: State where
  "state1 = \<lparr>active_phase = TRAIN,
             train_state = Some \<lparr>iteration_timer = timer0\<rparr>,
             eval_state = Some \<lparr>iteration_timer = \<lparr>recorded_durations = Map.empty\<rparr>\<rparr>,
             predict_state = Some \<lparr>iteration_timer =
               \<lparr>recorded_durations = [''data_wait_time'' \<mapsto> []]\<rparr>\<rparr>\<rparr>"

definition world1 :: world where
  "world1 = \<lparr>exec_state = state1, sink_calls = []\<rparr>"

definition state_idle :: State where
  "state_idle = \<lparr>active_phase = TRAIN, train_state = None, eval_state = None,
                 predict_state = None\<rparr>"

definition world_idle :: world where
  "world_idle = \<lparr>exec_state = state_idle, sink_calls = []\<rparr>"

text \<open>
  The set-up of \<^verbatim>\<open>test_maybe_log_for_step\<close>: a train phase with the given samples of
  \<^verbatim>\<open>"data_wait_time"\<close> and \<^verbatim>\<open>"train_iteration_time"\<close>, and a reporter for two units.
\<close>

definition train_phase_state :: "real list \<Rightarrow> real list \<Rightarrow> PhaseState" where
  "train_phase_state data_wait_time train_iteration_time =
     \<lparr>iteration_timer = \<lparr>recorded_durations =
        [''data_wait_time'' \<mapsto> data_wait_time,
         ''train_iteration_time'' \<mapsto> train_iteration_time]\<rparr>\<rparr>"

definition train_world :: "real list \<Rightarrow> real list \<Rightarrow> world" where
  "train_world data_wait_time train_iteration_time =
     \<lparr>exec_state =
        \<lparr>active_phase = TRAIN,
         train_state = Some (train_phase_state data_wait_time train_iteration_time),
         eval_state = None, predict_state = None\<rparr>,
      sink_calls = []\<rparr>"

definition throughput_logger0 :: ThroughputLogger where
  "throughput_logger0 =
     \<lparr>throughput_per_batch = [(''Batches'', 1), (''Items'', 32)],
      throughput_log_every_n_steps = 1\<rparr>"

section \<open>Construction of the TimeWaitForBatchLogger\<close>

lemma init_Inr_iff:
  "TimeWaitForBatchLogger_init lg n w = (Inr self, w') \<longleftrightarrow>
     1 \<le> n \<and> self = \<lparr>logger = lg, log_every_n_steps = n\<rparr> \<and> w' = w"
  by (auto simp: TimeWaitForBatchLogger_init_def)

text \<open>
  C6: the constructor raises a \<^verbatim>\<open>ValueError\<close> exactly when \<^verbatim>\<open>log_every_n_steps\<close> is
  below 1, and the message then ends in the offending value; for every value from 1 on and
  either sink it returns the logger, and in both cases the sink has received no call.
\<close>

theorem init_validates_cadence:
  "(\<exists>e. fst (TimeWaitForBatchLogger_init lg n w) = Inl e) = (n < 1)
   \<and> (if n < 1
      then TimeWaitForBatchLogger_init lg n w =
             (Inl (ValueError (''log_every_n_steps must be at least 1, got '' @ str_int n)), w)
      else TimeWaitForBatchLogger_init lg n w =
             (Inr \<lparr>logger = lg, log_every_n_steps = n\<rparr>, w))"
  by (simp add: TimeWaitForBatchLogger_init_def)

theorem init_validates_cadence_witness:
  "TimeWaitForBatchLogger_init SummaryWriter 0 world0 =
     (Inl (ValueError ''log_every_n_steps must be at least 1, got 0''), world0)
   \<and> TimeWaitForBatchLogger_init MetricLogger (- 3) world0 =
     (Inl (ValueError ''log_every_n_steps must be at least 1, got -3''), world0)
   \<and> TimeWaitForBatchLogger_init MetricLogger 2 world0 = (Inr logger0, world0)"
  using init_validates_cadence [of SummaryWriter 0 world0]
    init_validates_cadence [of MetricLogger "- 3" world0]
    init_validates_cadence [of MetricLogger 2 world0]
  by (simp add: str_int_def str_nat.simps digit_def logger0_def)

section \<open>Emission by the step-end hooks\<close>

lemma body_emit:
  assumes "log_every_n_steps self \<noteq> 0"
    and "step mod log_every_n_steps self = 0"
    and "recorded_durations timer ''data_wait_time'' = Some xs"
    and "xs \<noteq> []"
  shows "log_step_metrics_body self timer label step w =
           (Inr (), w\<lparr>sink_calls := sink_calls w @
              [(case logger self of SummaryWriter \<Rightarrow> Add_scalar | MetricLogger \<Rightarrow> Log)
                 label (last xs) step]\<rparr>)"
  using assms by (cases "logger self") (simp_all add: log_step_metrics_body_def)

lemma body_skip:
  assumes "log_every_n_steps self \<noteq> 0"
    and "step mod log_every_n_steps self \<noteq> 0
         \<or> recorded_durations timer ''data_wait_time'' = None
         \<or> recorded_durations timer ''data_wait_time'' = Some []"
  shows "log_step_metrics_body self timer label step w = (Inr (), w)"
  using assms by (auto simp: log_step_metrics_body_def)

lemma body_cases:
  "log_step_metrics_body self timer label step w = (Inl ZeroDivisionError, w)
   \<or> log_step_metrics_body self timer label step w = (Inr (), w)
   \<or> (\<exists>xs. recorded_durations timer ''data_wait_time'' = Some xs \<and> xs \<noteq> [] \<and>
        log_step_metrics_body self timer label step w =
          (Inr (), w\<lparr>sink_calls := sink_calls w @
             [(case logger self of SummaryWriter \<Rightarrow> Add_scalar | MetricLogger \<Rightarrow> Log)
                label (last xs) step]\<rparr>))"
  by (cases "logger self") (auto simp: log_step_metrics_body_def split: option.splits)

lemma call_args_dispatch [simp]:
  "call_args ((case c of SummaryWriter \<Rightarrow> Add_scalar | MetricLogger \<Rightarrow> Log) name v step) =
     (name, v, step)"
  by (cases c) simp_all

lemma rank_zero_emit:
  assumes "1 \<le> log_every_n_steps self"
    and "log_every_n_steps self dvd step"
    and "recorded_durations timer ''data_wait_time'' = Some xs"
    and "xs \<noteq> []"
  shows "\<exists>c. log_step_metrics self 0 timer label step w =
               (Inr (), w\<lparr>sink_calls := sink_calls w @ [c]\<rparr>)
             \<and> call_args c = (label, last xs, step)"
proof -
  from assms(1) have nz: "log_every_n_steps self \<noteq> 0" by simp
  from assms(2) have "step mod log_every_n_steps self = 0" by simp
  from body_emit [OF nz this assms(3,4)]
  have "log_step_metrics self 0 timer label step w =
          (Inr (), w\<lparr>sink_calls := sink_calls w @
              [(case logger self of SummaryWriter \<Rightarrow> Add_scalar | MetricLogger \<Rightarrow> Log)
                 label (last xs) step]\<rparr>)"
    by (simp add: log_step_metrics_def rank_zero_fn_def)
  moreover have "call_args ((case logger self of SummaryWriter \<Rightarrow> Add_scalar | MetricLogger \<Rightarrow> Log)
                 label (last xs) step) = (label, last xs, step)"
    by simp
  ultimately show ?thesis by blast
qed

text \<open>
  C1, as amended: on the process of global rank 0, a step-end hook of a constructed logger,
  called when the completed-step count of its unit is divisible by \<^verbatim>\<open>log_every_n_steps\<close>
  and the phase's \<^verbatim>\<open>recorded_durations\<close> holds a non-empty \<^verbatim>\<open>"data_wait_time"\<close> list,
  makes exactly one sink call; its value is the last element of the list, its name the fixed
  label of the hook's phase and its step the completed-step count.
\<close>

theorem wait_time_emitted_on_rank_zero:
  assumes "TimeWaitForBatchLogger_init lg n w0 = (Inr self, w1)"
    and "recorded_durations (iteration_timer ps) ''data_wait_time'' = Some xs"
    and "xs \<noteq> []"
  shows "(train_state (exec_state w) = Some ps
            \<and> log_every_n_steps self dvd num_steps_completed (train_progress tu)
          \<longrightarrow> (\<exists>c. on_train_step_end self 0 tu w =
                      (Inr (), w\<lparr>sink_calls := sink_calls w @ [c]\<rparr>)
                 \<and> call_args c = (''Time Wait For Batch (Train)'', last xs,
                                  num_steps_completed (train_progress tu))))
       \<and> (eval_state (exec_state w) = Some ps
            \<and> log_every_n_steps self dvd num_steps_completed (eval_progress eu)
          \<longrightarrow> (\<exists>c. on_eval_step_end self 0 eu w =
                      (Inr (), w\<lparr>sink_calls := sink_calls w @ [c]\<rparr>)
                 \<and> call_args c = (''Time Wait For Batch (Eval)'', last xs,
                                  num_steps_completed (eval_progress eu))))
       \<and> (predict_state (exec_state w) = Some ps
            \<and> log_every_n_steps self dvd num_steps_completed (predict_progress pu)
          \<longrightarrow> (\<exists>c. on_predict_step_end self 0 pu w =
                      (Inr (), w\<lparr>sink_calls := sink_calls w @ [c]\<rparr>)
                 \<and> call_args c = (''Time Wait For Batch (Predict)'', last xs,
                                  num_steps_completed (predict_progress pu))))"
proof -
  from assms(1) have n: "1 \<le> log_every_n_steps self"
    by (auto simp: init_Inr_iff)
  show ?thesis
    using rank_zero_emit [OF n _ assms(2,3)]
    by (simp add: on_train_step_end_def on_eval_step_end_def on_predict_step_end_def
        none_throws_def)
qed

theorem wait_time_emitted_on_rank_zero_witness:
  "TimeWaitForBatchLogger_init MetricLogger 2 world0 = (Inr logger0, world0)
   \<and> recorded_durations (iteration_timer \<lparr>iteration_timer = timer0\<rparr>) ''data_wait_time''
       = Some [1, 4]
   \<and> train_state (exec_state world0) = Some \<lparr>iteration_timer = timer0\<rparr>
   \<and> eval_state (exec_state world0) = Some \<lparr>iteration_timer = timer0\<rparr>
   \<and> predict_state (exec_state world0) = Some \<lparr>iteration_timer = timer0\<rparr>
   \<and> log_every_n_steps logger0 dvd num_steps_completed (train_progress train_unit0)
   \<and> log_every_n_steps logger0 dvd num_steps_completed (eval_progress eval_unit0)
   \<and> log_every_n_steps logger0 dvd num_steps_completed (predict_progress predict_unit0)
   \<and> (\<exists>c. on_train_step_end logger0 0 train_unit0 world0 =
             (Inr (), world0\<lparr>sink_calls := sink_calls world0 @ [c]\<rparr>)
           \<and> call_args c = (''Time Wait For Batch (Train)'', 4, 4))
   \<and> (\<exists>c. on_eval_step_end logger0 0 eval_unit0 world0 =
             (Inr (), world0\<lparr>sink_calls := sink_calls world0 @ [c]\<rparr>)
           \<and> call_args c = (''Time Wait For Batch (Eval)'', 4, 4))
   \<and> (\<exists>c. on_predict_step_end logger0 0 predict_unit0 world0 =
             (Inr (), world0\<lparr>sink_calls := sink_calls world0 @ [c]\<rparr>)
           \<and> call_args c = (''Time Wait For Batch (Predict)'', 4, 4))"
proof -
  have h1: "TimeWaitForBatchLogger_init MetricLogger 2 world0 = (Inr logger0, world0)"
    by (simp add: TimeWaitForBatchLogger_init_def logger0_def)
  have h2: "recorded_durations (iteration_timer \<lparr>iteration_timer = timer0\<rparr>) ''data_wait_time''
       = Some [1, 4]"
    by (simp add: timer0_def)
  have h3: "[1, 4 :: real] \<noteq> []" by simp
  have h4: "train_state (exec_state world0) = Some \<lparr>iteration_timer = timer0\<rparr>"
    "eval_state (exec_state world0) = Some \<lparr>iteration_timer = timer0\<rparr>"
    "predict_state (exec_state world0) = Some \<lparr>iteration_timer = timer0\<rparr>"
    by (simp_all add: world0_def state0_def)
  have h5: "log_every_n_steps logger0 dvd num_steps_completed (train_progress train_unit0)"
    "log_every_n_steps logger0 dvd num_steps_completed (eval_progress eval_unit0)"
    "log_every_n_steps logger0 dvd num_steps_completed (predict_progress predict_unit0)"
    by (simp_all add: logger0_def train_unit0_def eval_unit0_def predict_unit0_def)
  from wait_time_emitted_on_rank_zero [OF h1 h2 h3, of world0 train_unit0 eval_unit0 predict_unit0]
    h1 h2 h4 h5
  show ?thesis
    by (simp add: train_unit0_def eval_unit0_def predict_unit0_def)
qed

text \<open>
  C1 as stated leaves the rank out: on the process of rank 1, with the step divisible by the
  cadence and two recorded waits, the train hook returns without a sink call.
\<close>

theorem wait_time_not_emitted_off_rank_zero:
  "TimeWaitForBatchLogger_init MetricLogger 2 world0 = (Inr logger0, world0)
   \<and> train_state (exec_state world0) = Some \<lparr>iteration_timer = timer0\<rparr>
   \<and> recorded_durations timer0 ''data_wait_time'' = Some [1, 4]
   \<and> log_every_n_steps logger0 dvd num_steps_completed (train_progress train_unit0)
   \<and> on_train_step_end logger0 1 train_unit0 world0 = (Inr (), world0)
   \<and> sink_calls world0 = []"
  by (simp add: TimeWaitForBatchLogger_init_def logger0_def world0_def state0_def timer0_def
      train_unit0_def on_train_step_end_def none_throws_def log_step_metrics_def
      rank_zero_fn_def)

section \<open>Skips, ranks and the frame of the step-end hooks\<close>

lemma log_step_metrics_skip:
  assumes "1 \<le> log_every_n_steps self"
    and "\<not> log_every_n_steps self dvd step
         \<or> recorded_durations timer ''data_wait_time'' = None
         \<or> recorded_durations timer ''data_wait_time'' = Some []"
  shows "log_step_metrics self rank timer label step w = (Inr (), w)"
proof -
  from assms(1) have nz: "log_every_n_steps self \<noteq> 0" by simp
  from assms(2) have "step mod log_every_n_steps self \<noteq> 0
         \<or> recorded_durations timer ''data_wait_time'' = None
         \<or> recorded_durations timer ''data_wait_time'' = Some []"
    by (simp add: dvd_eq_mod_eq_0)
  from body_skip [OF nz this] show ?thesis
    by (simp add: log_step_metrics_def rank_zero_fn_def)
qed

text \<open>
  C5: a step-end hook of a constructed logger, called with its phase state present, returns
  normally and leaves the sink as it was whenever the completed-step count is not divisible
  by \<^verbatim>\<open>log_every_n_steps\<close>, or \<^verbatim>\<open>"data_wait_time"\<close> is absent from the phase's
  \<^verbatim>\<open>recorded_durations\<close>, or its list is empty; on every rank.
\<close>

theorem silent_skip:
  assumes "TimeWaitForBatchLogger_init lg n w0 = (Inr self, w1)"
  shows "(train_state (exec_state w) = Some tps
            \<and> (\<not> log_every_n_steps self dvd num_steps_completed (train_progress tu)
               \<or> recorded_durations (iteration_timer tps) ''data_wait_time'' = None
               \<or> recorded_durations (iteration_timer tps) ''data_wait_time'' = Some [])
          \<longrightarrow> on_train_step_end self rank tu w = (Inr (), w))
       \<and> (eval_state (exec_state w) = Some eps
            \<and> (\<not> log_every_n_steps self dvd num_steps_completed (eval_progress eu)
               \<or> recorded_durations (iteration_timer eps) ''data_wait_time'' = None
               \<or> recorded_durations (iteration_timer eps) ''data_wait_time'' = Some [])
          \<longrightarrow> on_eval_step_end self rank eu w = (Inr (), w))
       \<and> (predict_state (exec_state w) = Some pps
            \<and> (\<not> log_every_n_steps self dvd num_steps_completed (predict_progress pu)
               \<or> recorded_durations (iteration_timer pps) ''data_wait_time'' = None
               \<or> recorded_durations (iteration_timer pps) ''data_wait_time'' = Some [])
          \<longrightarrow> on_predict_step_end self rank pu w = (Inr (), w))"
proof -
  from assms(1) have n: "1 \<le> log_every_n_steps self"
    by (auto simp: init_Inr_iff)
  show ?thesis
    by (simp add: on_train_step_end_def on_eval_step_end_def on_predict_step_end_def
        none_throws_def log_step_metrics_skip [OF n])
qed

theorem silent_skip_witness:
  "TimeWaitForBatchLogger_init MetricLogger 2 world1 = (Inr logger0, world1)
   \<and> train_state (exec_state world1) = Some \<lparr>iteration_timer = timer0\<rparr>
   \<and> \<not> log_every_n_steps logger0 dvd num_steps_completed (train_progress train_unit1)
   \<and> eval_state (exec_state world1) = Some \<lparr>iteration_timer = \<lparr>recorded_durations = Map.empty\<rparr>\<rparr>
   \<and> recorded_durations (iteration_timer \<lparr>iteration_timer = \<lparr>recorded_durations = Map.empty\<rparr>\<rparr>)
        ''data_wait_time'' = None
   \<and> predict_state (exec_state world1) =
        Some \<lparr>iteration_timer = \<lparr>recorded_durations = [''data_wait_time'' \<mapsto> []]\<rparr>\<rparr>
   \<and> recorded_durations
        (iteration_timer \<lparr>iteration_timer = \<lparr>recorded_durations = [''data_wait_time'' \<mapsto> []]\<rparr>\<rparr>)
        ''data_wait_time'' = Some []
   \<and> on_train_step_end logger0 0 train_unit1 world1 = (Inr (), world1)
   \<and> on_eval_step_end logger0 0 eval_unit0 world1 = (Inr (), world1)
   \<and> on_predict_step_end logger0 0 predict_unit0 world1 = (Inr (), world1)"
proof -
  have h1: "TimeWaitForBatchLogger_init MetricLogger 2 world1 = (Inr logger0, world1)"
    by (simp add: TimeWaitForBatchLogger_init_def logger0_def)
  have h2: "train_state (exec_state world1) = Some \<lparr>iteration_timer = timer0\<rparr>"
    "eval_state (exec_state world1) = Some \<lparr>iteration_timer = \<lparr>recorded_durations = Map.empty\<rparr>\<rparr>"
    "predict_state (exec_state world1) =
        Some \<lparr>iteration_timer = \<lparr>recorded_durations = [''data_wait_time'' \<mapsto> []]\<rparr>\<rparr>"
    by (simp_all add: world1_def state1_def)
  have h3: "\<not> log_every_n_steps logger0 dvd num_steps_completed (train_progress train_unit1)"
    by (simp add: logger0_def train_unit1_def)
  have h4: "recorded_durations (iteration_timer \<lparr>iteration_timer = \<lparr>recorded_durations = Map.empty\<rparr>\<rparr>)
        ''data_wait_time'' = None"
    "recorded_durations
        (iteration_timer \<lparr>iteration_timer = \<lparr>recorded_durations = [''data_wait_time'' \<mapsto> []]\<rparr>\<rparr>)
        ''data_wait_time'' = Some []"
    by simp_all
  from silent_skip [OF h1, of world1 "\<lparr>iteration_timer = timer0\<rparr>" train_unit1 0
      "\<lparr>iteration_timer = \<lparr>recorded_durations = Map.empty\<rparr>\<rparr>" eval_unit0
      "\<lparr>iteration_timer = \<lparr>recorded_durations = [''data_wait_time'' \<mapsto> []]\<rparr>\<rparr>" predict_unit0]
    h1 h2 h3 h4
  show ?thesis by simp
qed

text \<open>
  C7: on a process whose rank is not 0, \<^verbatim>\<open>_log_step_metrics\<close> returns at once and changes
  nothing; every step-end hook leaves the world, and so the sink, as it was, and returns
  normally when its phase state is present.
\<close>

theorem off_rank_zero_no_op:
  assumes "rank \<noteq> 0"
  shows "log_step_metrics self rank timer label step w = (Inr (), w)
       \<and> snd (on_train_step_end self rank tu w) = w
       \<and> snd (on_eval_step_end self rank eu w) = w
       \<and> snd (on_predict_step_end self rank pu w) = w
       \<and> (train_state (exec_state w) \<noteq> None
            \<longrightarrow> on_train_step_end self rank tu w = (Inr (), w))
       \<and> (eval_state (exec_state w) \<noteq> None
            \<longrightarrow> on_eval_step_end self rank eu w = (Inr (), w))
       \<and> (predict_state (exec_state w) \<noteq> None
            \<longrightarrow> on_predict_step_end self rank pu w = (Inr (), w))"
  using assms
  by (auto simp: on_train_step_end_def on_eval_step_end_def on_predict_step_end_def
      none_throws_def log_step_metrics_def rank_zero_fn_def split: option.splits)

theorem off_rank_zero_no_op_witness:
  "(3::nat) \<noteq> 0
   \<and> train_state (exec_state world0) \<noteq> None
   \<and> eval_state (exec_state world0) \<noteq> None
   \<and> predict_state (exec_state world0) \<noteq> None
   \<and> log_step_metrics logger0 3 timer0 ''Time Wait For Batch (Train)'' 4 world0 = (Inr (), world0)
   \<and> on_train_step_end logger0 3 train_unit0 world0 = (Inr (), world0)
   \<and> on_eval_step_end logger0 3 eval_unit0 world0 = (Inr (), world0)
   \<and> on_predict_step_end logger0 3 predict_unit0 world0 = (Inr (), world0)"
proof -
  have r: "(3::nat) \<noteq> 0" by simp
  have h: "train_state (exec_state world0) \<noteq> None" "eval_state (exec_state world0) \<noteq> None"
    "predict_state (exec_state world0) \<noteq> None"
    by (simp_all add: world0_def state0_def)
  from off_rank_zero_no_op [OF r, of logger0 timer0 "''Time Wait For Batch (Train)''" 4 world0
      train_unit0 eval_unit0 predict_unit0] h
  show ?thesis by simp
qed

lemma log_step_metrics_cases:
  "log_step_metrics self rank timer label step w = (Inl ZeroDivisionError, w)
   \<or> log_step_metrics self rank timer label step w = (Inr (), w)
   \<or> (\<exists>xs. recorded_durations timer ''data_wait_time'' = Some xs \<and> xs \<noteq> [] \<and>
        log_step_metrics self rank timer label step w =
          (Inr (), w\<lparr>sink_calls := sink_calls w @
             [(case logger self of SummaryWriter \<Rightarrow> Add_scalar | MetricLogger \<Rightarrow> Log)
                label (last xs) step]\<rparr>))"
  using body_cases [of self timer label step w]
  by (simp add: log_step_metrics_def rank_zero_fn_def)

lemma log_step_metrics_returns:
  assumes "1 \<le> log_every_n_steps self"
  shows "fst (log_step_metrics self rank timer label step w) = Inr ()"
  using assms
  by (auto simp: log_step_metrics_def rank_zero_fn_def log_step_metrics_body_def
      split: option.splits)

text \<open>
  C8: whenever \<^verbatim>\<open>_log_step_metrics\<close> changes the sink, it has appended exactly one call:
  \<^verbatim>\<open>add_scalar\<close> when the sink is a \<^verbatim>\<open>SummaryWriter\<close> and \<^verbatim>\<open>log\<close> otherwise, with the
  label, the last \<^verbatim>\<open>"data_wait_time"\<close> sample and the step as arguments; the same call on
  a logger of the other sink class makes the other operation with the same three arguments.
\<close>

theorem dispatch_on_sink_class:
  assumes "log_step_metrics self rank timer label step w = (r, w')"
    and "sink_calls w' \<noteq> sink_calls w"
  shows "\<exists>xs. recorded_durations timer ''data_wait_time'' = Some xs \<and> xs \<noteq> [] \<and> r = Inr ()
           \<and> w' = w\<lparr>sink_calls := sink_calls w @
                [case logger self of
                   SummaryWriter \<Rightarrow> Add_scalar label (last xs) step
                 | MetricLogger \<Rightarrow> Log label (last xs) step]\<rparr>
           \<and> log_step_metrics (self\<lparr>logger := SummaryWriter\<rparr>) rank timer label step w =
               (Inr (), w\<lparr>sink_calls := sink_calls w @ [Add_scalar label (last xs) step]\<rparr>)
           \<and> log_step_metrics (self\<lparr>logger := MetricLogger\<rparr>) rank timer label step w =
               (Inr (), w\<lparr>sink_calls := sink_calls w @ [Log label (last xs) step]\<rparr>)"
  using assms
  by (cases "logger self")
     (auto simp: log_step_metrics_def rank_zero_fn_def log_step_metrics_body_def
       split: if_splits option.splits)

theorem dispatch_on_sink_class_witness:
  "log_step_metrics logger0 0 timer0 ''Time Wait For Batch (Train)'' 4 world0 =
     (Inr (), world0\<lparr>sink_calls := [Log ''Time Wait For Batch (Train)'' 4 4]\<rparr>)
   \<and> sink_calls (world0\<lparr>sink_calls := [Log ''Time Wait For Batch (Train)'' 4 4]\<rparr>)
        \<noteq> sink_calls world0
   \<and> (\<exists>xs. recorded_durations timer0 ''data_wait_time'' = Some xs \<and> xs \<noteq> []
        \<and> world0\<lparr>sink_calls := [Log ''Time Wait For Batch (Train)'' 4 4]\<rparr> =
            world0\<lparr>sink_calls := sink_calls world0 @
                [case logger logger0 of
                   SummaryWriter \<Rightarrow> Add_scalar ''Time Wait For Batch (Train)'' (last xs) 4
                 | MetricLogger \<Rightarrow> Log ''Time Wait For Batch (Train)'' (last xs) 4]\<rparr>
        \<and> log_step_metrics (logger0\<lparr>logger := SummaryWriter\<rparr>) 0 timer0
             ''Time Wait For Batch (Train)'' 4 world0 =
            (Inr (), world0\<lparr>sink_calls := sink_calls world0 @
                [Add_scalar ''Time Wait For Batch (Train)'' (last xs) 4]\<rparr>)
        \<and> log_step_metrics (logger0\<lparr>logger := MetricLogger\<rparr>) 0 timer0
             ''Time Wait For Batch (Train)'' 4 world0 =
            (Inr (), world0\<lparr>sink_calls := sink_calls world0 @
                [Log ''Time Wait For Batch (Train)'' (last xs) 4]\<rparr>))"
proof -
  have h1: "log_step_metrics logger0 0 timer0 ''Time Wait For Batch (Train)'' 4 world0 =
     (Inr (), world0\<lparr>sink_calls := [Log ''Time Wait For Batch (Train)'' 4 4]\<rparr>)"
    by (simp add: log_step_metrics_def rank_zero_fn_def log_step_metrics_body_def logger0_def
        timer0_def world0_def)
  have h2: "sink_calls (world0\<lparr>sink_calls := [Log ''Time Wait For Batch (Train)'' 4 4]\<rparr>)
        \<noteq> sink_calls world0"
    by (simp add: world0_def)
  from dispatch_on_sink_class [OF h1 h2] h1 h2
  show ?thesis by simp
qed

text \<open>
  C9: a step-end hook never changes the execution state, so every
  \<^verbatim>\<open>recorded_durations\<close> mapping and every list in it is afterwards what it was before;
  the sink has received at most one call more. This holds on every rank, for every logger,
  and also when the hook raises.
\<close>

theorem hooks_frame:
  "exec_state (snd (on_train_step_end self rank tu w)) = exec_state w
   \<and> (\<exists>cs. length cs \<le> 1
          \<and> sink_calls (snd (on_train_step_end self rank tu w)) = sink_calls w @ cs)
   \<and> exec_state (snd (on_eval_step_end self rank eu w)) = exec_state w
   \<and> (\<exists>cs. length cs \<le> 1
          \<and> sink_calls (snd (on_eval_step_end self rank eu w)) = sink_calls w @ cs)
   \<and> exec_state (snd (on_predict_step_end self rank pu w)) = exec_state w
   \<and> (\<exists>cs. length cs \<le> 1
          \<and> sink_calls (snd (on_predict_step_end self rank pu w)) = sink_calls w @ cs)"
proof -
  have frame: "exec_state (snd (log_step_metrics self rank timer label step w)) = exec_state w
        \<and> (\<exists>cs. length cs \<le> 1
          \<and> sink_calls (snd (log_step_metrics self rank timer label step w)) = sink_calls w @ cs)"
    for timer label step
    using log_step_metrics_cases [of self rank timer label step w]
    by (elim disjE exE conjE) (simp, simp, simp)
  have t: "exec_state (snd (on_train_step_end self rank tu w)) = exec_state w
      \<and> (\<exists>cs. length cs \<le> 1
          \<and> sink_calls (snd (on_train_step_end self rank tu w)) = sink_calls w @ cs)"
    using frame
    by (cases "train_state (exec_state w)")
       (simp_all add: on_train_step_end_def none_throws_def)
  have e: "exec_state (snd (on_eval_step_end self rank eu w)) = exec_state w
      \<and> (\<exists>cs. length cs \<le> 1
          \<and> sink_calls (snd (on_eval_step_end self rank eu w)) = sink_calls w @ cs)"
    using frame
    by (cases "eval_state (exec_state w)")
       (simp_all add: on_eval_step_end_def none_throws_def)
  have p: "exec_state (snd (on_predict_step_end self rank pu w)) = exec_state w
      \<and> (\<exists>cs. length cs \<le> 1
          \<and> sink_calls (snd (on_predict_step_end self rank pu w)) = sink_calls w @ cs)"
    using frame
    by (cases "predict_state (exec_state w)")
       (simp_all add: on_predict_step_end_def none_throws_def)
  from t e p show ?thesis by blast
qed

theorem hooks_frame_witness:
  "exec_state (snd (on_train_step_end logger0 0 train_unit0 world0)) = state0
   \<and> (\<exists>cs. length cs \<le> 1
          \<and> sink_calls (snd (on_train_step_end logger0 0 train_unit0 world0)) = cs)
   \<and> sink_calls (snd (on_train_step_end logger0 0 train_unit0 world0)) =
        [Log ''Time Wait For Batch (Train)'' 4 4]"
proof -
  have c: "sink_calls (snd (on_train_step_end logger0 0 train_unit0 world0)) =
        [Log ''Time Wait For Batch (Train)'' 4 4]"
    by (simp add: on_train_step_end_def none_throws_def log_step_metrics_def rank_zero_fn_def
        log_step_metrics_body_def logger0_def train_unit0_def world0_def state0_def timer0_def)
  from hooks_frame [of logger0 0 train_unit0 world0] c
  show ?thesis by (simp add: world0_def)
qed

text \<open>
  C10: a step-end hook called when the phase state of its phase is \<^verbatim>\<open>None\<close> raises the
  \<^verbatim>\<open>AssertionError\<close> of \<^verbatim>\<open>none_throws\<close>, on every rank, and touches nothing; when
  the phase state is present, a hook of a constructed logger returns normally.
\<close>

theorem phase_state_required:
  assumes "TimeWaitForBatchLogger_init lg n w0 = (Inr self, w1)"
  shows "(train_state (exec_state w) = None
            \<longrightarrow> on_train_step_end self rank tu w = (Inl AssertionError, w))
       \<and> (eval_state (exec_state w) = None
            \<longrightarrow> on_eval_step_end self rank eu w = (Inl AssertionError, w))
       \<and> (predict_state (exec_state w) = None
            \<longrightarrow> on_predict_step_end self rank pu w = (Inl AssertionError, w))
       \<and> (train_state (exec_state w) \<noteq> None
            \<longrightarrow> fst (on_train_step_end self rank tu w) = Inr ())
       \<and> (eval_state (exec_state w) \<noteq> None
            \<longrightarrow> fst (on_eval_step_end self rank eu w) = Inr ())
       \<and> (predict_state (exec_state w) \<noteq> None
            \<longrightarrow> fst (on_predict_step_end self rank pu w) = Inr ())"
proof -
  from assms(1) have n: "1 \<le> log_every_n_steps self"
    by (auto simp: init_Inr_iff)
  show ?thesis
    by (auto simp: on_train_step_end_def on_eval_step_end_def on_predict_step_end_def
        none_throws_def log_step_metrics_returns [OF n])
qed

theorem phase_state_required_witness:
  "TimeWaitForBatchLogger_init MetricLogger 2 world0 = (Inr logger0, world0)
   \<and> train_state (exec_state world_idle) = None
   \<and> eval_state (exec_state world_idle) = None
   \<and> predict_state (exec_state world_idle) = None
   \<and> on_train_step_end logger0 0 train_unit0 world_idle = (Inl AssertionError, world_idle)
   \<and> on_eval_step_end logger0 0 eval_unit0 world_idle = (Inl AssertionError, world_idle)
   \<and> on_predict_step_end logger0 0 predict_unit0 world_idle = (Inl AssertionError, world_idle)
   \<and> train_state (exec_state world0) \<noteq> None
   \<and> eval_state (exec_state world0) \<noteq> None
   \<and> predict_state (exec_state world0) \<noteq> None
   \<and> fst (on_train_step_end logger0 0 train_unit0 world0) = Inr ()
   \<and> fst (on_eval_step_end logger0 0 eval_unit0 world0) = Inr ()
   \<and> fst (on_predict_step_end logger0 0 predict_unit0 world0) = Inr ()"
proof -
  have h1: "TimeWaitForBatchLogger_init MetricLogger 2 world0 = (Inr logger0, world0)"
    by (simp add: TimeWaitForBatchLogger_init_def logger0_def)
  have idle: "train_state (exec_state world_idle) = None"
    "eval_state (exec_state world_idle) = None"
    "predict_state (exec_state world_idle) = None"
    by (simp_all add: world_idle_def state_idle_def)
  have busy: "train_state (exec_state world0) \<noteq> None" "eval_state (exec_state world0) \<noteq> None"
    "predict_state (exec_state world0) \<noteq> None"
    by (simp_all add: world0_def state0_def)
  from phase_state_required [OF h1, of world_idle 0 train_unit0 eval_unit0 predict_unit0]
    phase_state_required [OF h1, of world0 0 train_unit0 eval_unit0 predict_unit0]
    h1 idle busy
  show ?thesis by simp
qed

section \<open>Construction of the ThroughputLogger\<close>

lemma check_items_None: "check_items spec = None \<longleftrightarrow> (\<forall>kv\<in>set spec. 1 \<le> snd kv)"
  by (induction spec rule: check_items.induct) auto

lemma check_items_Some:
  "check_items spec = Some e \<Longrightarrow>
     \<exists>k v. (k, v) \<in> set spec \<and> v < 1 \<and>
       e = ValueError (''throughput_per_batch item '' @ k @
                         '' must be at least 1, got '' @ str_int v)"
  by (induction spec rule: check_items.induct) (auto split: if_splits)

lemma throughput_init_Inr_iff:
  "ThroughputLogger_init spec n w = (Inr self, w') \<longleftrightarrow>
     spec \<noteq> [] \<and> (\<forall>kv\<in>set spec. 1 \<le> snd kv) \<and> 1 \<le> n
     \<and> self = \<lparr>throughput_per_batch = spec, throughput_log_every_n_steps = n\<rparr> \<and> w' = w"
  by (auto simp: ThroughputLogger_init_def check_items_None [symmetric] split: option.splits)

text \<open>
  C3: constructing a Throughput Reporter fails exactly when the specification is empty, or
  one of its values is below 1, or the cadence is below 1. The error names the field for an
  empty specification, an offending key with its value for a value below 1, and the cadence
  when only the cadence is below 1; in every other case the reporter is returned.
\<close>

theorem throughput_init_validates:
  "((\<exists>e. fst (ThroughputLogger_init spec n w) = Inl e)
      \<longleftrightarrow> spec = [] \<or> (\<exists>kv\<in>set spec. snd kv < 1) \<or> n < 1)
   \<and> (spec = [] \<longrightarrow>
        ThroughputLogger_init spec n w =
          (Inl (ValueError ''throughput_per_batch cannot be empty''), w))
   \<and> (spec \<noteq> [] \<and> (\<exists>kv\<in>set spec. snd kv < 1) \<longrightarrow>
        (\<exists>k v. (k, v) \<in> set spec \<and> v < 1 \<and>
           ThroughputLogger_init spec n w =
             (Inl (ValueError (''throughput_per_batch item '' @ k @
                                 '' must be at least 1, got '' @ str_int v)), w)))
   \<and> (spec \<noteq> [] \<and> (\<forall>kv\<in>set spec. 1 \<le> snd kv) \<and> n < 1 \<longrightarrow>
        ThroughputLogger_init spec n w =
          (Inl (ValueError (''log_every_n_steps must be at least 1, got '' @ str_int n)), w))
   \<and> (spec \<noteq> [] \<and> (\<forall>kv\<in>set spec. 1 \<le> snd kv) \<and> 1 \<le> n \<longrightarrow>
        ThroughputLogger_init spec n w =
          (Inr \<lparr>throughput_per_batch = spec, throughput_log_every_n_steps = n\<rparr>, w))"
proof -
  have bad: "(\<exists>kv\<in>set spec. snd kv < 1) \<longleftrightarrow> check_items spec \<noteq> None"
    unfolding check_items_None by (simp add: not_le)
  show ?thesis
  proof (cases "check_items spec")
    case None
    then show ?thesis
      by (auto simp: ThroughputLogger_init_def bad)
  next
    case (Some e)
    from check_items_Some [OF this] obtain k v where kv: "(k, v) \<in> set spec" "v < 1"
      and e: "e = ValueError (''throughput_per_batch item '' @ k @
                         '' must be at least 1, got '' @ str_int v)"
      by blast
    from kv have ne: "spec \<noteq> []" by auto
    from kv have ex: "\<exists>kv\<in>set spec. snd kv < 1" by force
    from kv have nall: "\<not> (\<forall>kv\<in>set spec. 1 \<le> snd kv)" by force
    have init: "ThroughputLogger_init spec n w = (Inl e, w)"
      using Some ne by (simp add: ThroughputLogger_init_def)
    have named: "\<exists>k v. (k, v) \<in> set spec \<and> v < 1 \<and>
           ThroughputLogger_init spec n w =
             (Inl (ValueError (''throughput_per_batch item '' @ k @
                                 '' must be at least 1, got '' @ str_int v)), w)"
      using kv e init by blast
    have fails: "\<exists>e. fst (ThroughputLogger_init spec n w) = Inl e"
      using init by simp
    from ne ex nall named fails show ?thesis by blast
  qed
qed

theorem throughput_init_validates_witness:
  "ThroughputLogger_init [] 1 world0 =
     (Inl (ValueError ''throughput_per_batch cannot be empty''), world0)
   \<and> (\<exists>k v. (k, v) \<in> set [(''Queries'', 8), (''Batches'', - 1)] \<and> v < 1 \<and>
         ThroughputLogger_init [(''Queries'', 8), (''Batches'', - 1)] 1 world0 =
           (Inl (ValueError (''throughput_per_batch item '' @ k @
                               '' must be at least 1, got '' @ str_int v)), world0))
   \<and> ThroughputLogger_init [(''Batches'', 1)] 0 world0 =
       (Inl (ValueError ''log_every_n_steps must be at least 1, got 0''), world0)
   \<and> ThroughputLogger_init [(''Batches'', 1), (''Items'', 32)] 1 world0 =
       (Inr throughput_logger0, world0)"
proof -
  have a: "ThroughputLogger_init [] 1 world0 =
     (Inl (ValueError ''throughput_per_batch cannot be empty''), world0)"
    using throughput_init_validates [of "[]" 1 world0] by simp
  have b: "\<exists>k v. (k, v) \<in> set [(''Queries'', 8), (''Batches'', - 1)] \<and> v < 1 \<and>
         ThroughputLogger_init [(''Queries'', 8), (''Batches'', - 1)] 1 world0 =
           (Inl (ValueError (''throughput_per_batch item '' @ k @
                               '' must be at least 1, got '' @ str_int v)), world0)"
  proof -
    have "[(''Queries'', 8), (''Batches'', - 1 :: int)] \<noteq> []
        \<and> (\<exists>kv\<in>set [(''Queries'', 8), (''Batches'', - 1 :: int)]. snd kv < 1)"
      by simp
    with throughput_init_validates [of "[(''Queries'', 8), (''Batches'', - 1)]" 1 world0]
    show ?thesis by blast
  qed
  have c: "ThroughputLogger_init [(''Batches'', 1)] 0 world0 =
       (Inl (ValueError ''log_every_n_steps must be at least 1, got 0''), world0)"
  proof -
    have "[(''Batches'', 1 :: int)] \<noteq> [] \<and> (\<forall>kv\<in>set [(''Batches'', 1 :: int)]. 1 \<le> snd kv)
        \<and> (0 :: int) < 1"
      by simp
    with throughput_init_validates [of "[(''Batches'', 1)]" 0 world0]
    have "ThroughputLogger_init [(''Batches'', 1)] 0 world0 =
       (Inl (ValueError (''log_every_n_steps must be at least 1, got '' @ str_int 0)), world0)"
      by blast
    then show ?thesis by (simp add: str_int_def str_nat.simps digit_def)
  qed
  have d: "ThroughputLogger_init [(''Batches'', 1), (''Items'', 32)] 1 world0 =
       (Inr throughput_logger0, world0)"
  proof -
    have "[(''Batches'', 1), (''Items'', 32 :: int)] \<noteq> []
        \<and> (\<forall>kv\<in>set [(''Batches'', 1), (''Items'', 32 :: int)]. 1 \<le> snd kv)
        \<and> (1 :: int) \<le> 1"
      by simp
    with throughput_init_validates [of "[(''Batches'', 1), (''Items'', 32)]" 1 world0]
    show ?thesis unfolding throughput_logger0_def by blast
  qed
  from a b c d show ?thesis by blast
qed

section \<open>The per-step evaluation of the ThroughputLogger\<close>

lemma nth_length_minus_one: "xs \<noteq> [] \<Longrightarrow> xs ! (length xs - Suc 0) = last xs"
  by (simp add: last_conv_nth)

lemma nth_length_minus_one_long: "\<not> length xs < 2 \<Longrightarrow> xs ! (length xs - Suc 0) = last xs"
  by (cases xs) (simp_all add: last_conv_nth)

text \<open>
  C2: for a constructed reporter, a step the cadence divides, a non-empty iteration-time
  sequence and at least two wait-time samples of the active phase, and a positive
  \<open>total_time\<close> (the wait-time sample \<^verbatim>\<open>[-2]\<close> at step-end, \<^verbatim>\<open>[-1]\<close> at step-start, plus
  the iteration-time sample \<^verbatim>\<open>[-1]\<close>), the sink receives, for each pair of the
  specification in turn, the metric \<^verbatim>\<open>"{Phase}: {unit_name} per second (step granularity)"\<close>
  with value \<open>count_per_batch / total_time\<close> and the step reported on, and nothing else.
\<close>

theorem throughput_emitted:
  assumes "ThroughputLogger_init spec n w0 = (Inr self, w1)"
    and "n dvd step"
    and "active_phase (exec_state w) = phase"
    and "active_phase_state (exec_state w) = Some ps"
    and "recorded_durations (iteration_timer ps) (iteration_time_key phase) = Some iteration_time"
    and "iteration_time \<noteq> []"
    and "recorded_durations (iteration_timer ps) ''data_wait_time'' = Some data_wait_time"
    and "2 \<le> length data_wait_time"
    and "total_time =
           (if is_step_end_hook then data_wait_time ! (length data_wait_time - 2)
            else last data_wait_time) + last iteration_time"
    and "0 < total_time"
  shows "maybe_log_for_step self step is_step_end_hook w =
           (Inr (),
            w\<lparr>sink_calls := sink_calls w @
                map (\<lambda>(unit_name, count_per_batch).
                       Log (phase_label phase @ '': '' @ unit_name @
                              '' per second (step granularity)'')
                           (real_of_int count_per_batch / total_time) step)
                    spec\<rparr>)"
proof -
  from assms(1) have self: "throughput_per_batch self = spec"
      "throughput_log_every_n_steps self = n" and n: "1 \<le> n"
    by (auto simp: throughput_init_Inr_iff)
  from n assms(2) have cadence: "n \<noteq> 0" "step mod n = 0" by simp_all
  from assms(8) have dwt: "data_wait_time \<noteq> []" by auto
  have its: "samples (iteration_timer ps) (iteration_time_key phase) = iteration_time"
    and waits: "samples (iteration_timer ps) ''data_wait_time'' = data_wait_time"
    using assms(5,7) by (simp_all add: samples_def)
  from assms(9,10) have pos:
    "\<not> (if is_step_end_hook then data_wait_time ! (length data_wait_time - 2)
        else last data_wait_time) + last iteration_time \<le> 0"
    by simp
  show ?thesis
    using assms(6,8) pos cadence dwt
    by (cases is_step_end_hook)
       (simp_all add: maybe_log_for_step_def self assms(3) assms(4) none_throws_def its waits
          Let_def metric_name_def nth_length_minus_one assms(9))
qed

theorem throughput_emitted_witness:
  "ThroughputLogger_init [(''Batches'', 1), (''Items'', 32)] 1 world0 =
     (Inr throughput_logger0, world0)
   \<and> (1 :: int) dvd 1 \<and> (1 :: int) dvd 2
   \<and> (0 :: real) < 1 + 3 \<and> (0 :: real) < 4 + 4
   \<and> maybe_log_for_step throughput_logger0 1 True (train_world [1, 4] [3]) =
       (Inr (),
        (train_world [1, 4] [3])\<lparr>sink_calls :=
           [Log ''Train: Batches per second (step granularity)'' 0.25 1,
            Log ''Train: Items per second (step granularity)'' 8 1]\<rparr>)
   \<and> maybe_log_for_step throughput_logger0 2 False (train_world [1, 4] [3, 4]) =
       (Inr (),
        (train_world [1, 4] [3, 4])\<lparr>sink_calls :=
           [Log ''Train: Batches per second (step granularity)'' 0.125 2,
            Log ''Train: Items per second (step granularity)'' 4 2]\<rparr>)"
proof -
  have init: "ThroughputLogger_init [(''Batches'', 1), (''Items'', 32)] 1 world0 =
     (Inr throughput_logger0, world0)"
    by (simp add: ThroughputLogger_init_def throughput_logger0_def)
  have ph: "active_phase (exec_state (train_world dw it)) = TRAIN"
    and ps: "active_phase_state (exec_state (train_world dw it)) = Some (train_phase_state dw it)"
    and it: "recorded_durations (iteration_timer (train_phase_state dw it))
               (iteration_time_key TRAIN) = Some it"
    and dw: "recorded_durations (iteration_timer (train_phase_state dw it))
               ''data_wait_time'' = Some dw"
    for dw it
    by (simp_all add: train_world_def train_phase_state_def active_phase_state_def)
  have d1: "(1 :: int) dvd 1" and d2: "(1 :: int) dvd 2" by simp_all
  have ne1: "[3 :: real] \<noteq> []" and ne2: "[3, 4 :: real] \<noteq> []" by simp_all
  have len: "2 \<le> length [1, 4 :: real]" by simp
  have t1: "(1 + 3 :: real) =
      (if True then [1, 4] ! (length [1, 4 :: real] - 2) else last [1, 4]) + last [3]"
    by simp
  have t2: "(4 + 4 :: real) =
      (if False then [1, 4] ! (length [1, 4 :: real] - 2) else last [1, 4]) + last [3, 4]"
    by simp
  have p1: "(0 :: real) < 1 + 3" and p2: "(0 :: real) < 4 + 4" by simp_all
  have e: "maybe_log_for_step throughput_logger0 1 True (train_world [1, 4] [3]) =
       (Inr (),
        (train_world [1, 4] [3])\<lparr>sink_calls :=
           [Log ''Train: Batches per second (step granularity)'' 0.25 1,
            Log ''Train: Items per second (step granularity)'' 8 1]\<rparr>)"
    using throughput_emitted [OF init d1 ph ps it ne1 dw len t1 p1]
    by (simp add: train_world_def)
  have s: "maybe_log_for_step throughput_logger0 2 False (train_world [1, 4] [3, 4]) =
       (Inr (),
        (train_world [1, 4] [3, 4])\<lparr>sink_calls :=
           [Log ''Train: Batches per second (step granularity)'' 0.125 2,
            Log ''Train: Items per second (step granularity)'' 4 2]\<rparr>)"
    using throughput_emitted [OF init d2 ph ps it ne2 dw len t2 p2]
    by (simp add: train_world_def)
  from init e s show ?thesis by simp
qed

text \<open>
  C4: for a constructed reporter, when the cadence does not divide the step, or the
  iteration-time sequence of the active phase is empty, or its wait-time sequence has fewer
  than two samples, or \<open>total_time\<close> is not positive, the evaluation returns normally and
  the sink has received no call.
\<close>

theorem throughput_silent_skip:
  assumes "ThroughputLogger_init spec n w0 = (Inr self, w1)"
  shows "(\<not> n dvd step \<longrightarrow> maybe_log_for_step self step is_step_end_hook w = (Inr (), w))
       \<and> (active_phase_state (exec_state w) = Some ps
            \<and> iteration_time =
                samples (iteration_timer ps) (iteration_time_key (active_phase (exec_state w)))
            \<and> data_wait_time = samples (iteration_timer ps) ''data_wait_time''
            \<and> (iteration_time = [] \<or> length data_wait_time < 2
               \<or> (if is_step_end_hook then data_wait_time ! (length data_wait_time - 2)
                   else last data_wait_time) + last iteration_time \<le> 0)
          \<longrightarrow> maybe_log_for_step self step is_step_end_hook w = (Inr (), w))"
proof -
  from assms(1) have self: "throughput_per_batch self = spec"
      "throughput_log_every_n_steps self = n" and n: "1 \<le> n"
    by (auto simp: throughput_init_Inr_iff)
  from n have nz: "n \<noteq> 0" by simp
  have a: "maybe_log_for_step self step is_step_end_hook w = (Inr (), w)" if "\<not> n dvd step"
    using that nz by (simp add: maybe_log_for_step_def self dvd_eq_mod_eq_0)
  have b: "maybe_log_for_step self step is_step_end_hook w = (Inr (), w)"
    if "active_phase_state (exec_state w) = Some ps"
      and "iteration_time =
             samples (iteration_timer ps) (iteration_time_key (active_phase (exec_state w)))"
      and "data_wait_time = samples (iteration_timer ps) ''data_wait_time''"
      and "iteration_time = [] \<or> length data_wait_time < 2
           \<or> (if is_step_end_hook then data_wait_time ! (length data_wait_time - 2)
               else last data_wait_time) + last iteration_time \<le> 0"
    using that nz
    by (cases is_step_end_hook)
       (auto simp: maybe_log_for_step_def self none_throws_def Let_def nth_length_minus_one
          nth_length_minus_one_long)
  from a b show ?thesis by blast
qed

theorem throughput_silent_skip_witness:
  "ThroughputLogger_init [(''Batches'', 1)] 1 world0 =
     (Inr \<lparr>throughput_per_batch = [(''Batches'', 1)], throughput_log_every_n_steps = 1\<rparr>, world0)
   \<and> ThroughputLogger_init [(''Batches'', 1)] 2 world0 =
     (Inr \<lparr>throughput_per_batch = [(''Batches'', 1)], throughput_log_every_n_steps = 2\<rparr>, world0)
   \<and> \<not> (2 :: int) dvd 1
   \<and> maybe_log_for_step
        \<lparr>throughput_per_batch = [(''Batches'', 1)], throughput_log_every_n_steps = 1\<rparr>
        1 True (train_world [0, 4] [0]) = (Inr (), train_world [0, 4] [0])
   \<and> maybe_log_for_step
        \<lparr>throughput_per_batch = [(''Batches'', 1)], throughput_log_every_n_steps = 1\<rparr>
        1 True (train_world [1, 2] []) = (Inr (), train_world [1, 2] [])
   \<and> maybe_log_for_step
        \<lparr>throughput_per_batch = [(''Batches'', 1)], throughput_log_every_n_steps = 1\<rparr>
        1 True (train_world [1] [1]) = (Inr (), train_world [1] [1])
   \<and> maybe_log_for_step
        \<lparr>throughput_per_batch = [(''Batches'', 1)], throughput_log_every_n_steps = 2\<rparr>
        1 True (train_world [1, 2] [1]) = (Inr (), train_world [1, 2] [1])"
proof -
  let ?l1 = "\<lparr>throughput_per_batch = [(''Batches'', 1)], throughput_log_every_n_steps = 1\<rparr>"
  let ?l2 = "\<lparr>throughput_per_batch = [(''Batches'', 1)], throughput_log_every_n_steps = 2\<rparr>"
  have i1: "ThroughputLogger_init [(''Batches'', 1)] 1 world0 = (Inr ?l1, world0)"
    and i2: "ThroughputLogger_init [(''Batches'', 1)] 2 world0 = (Inr ?l2, world0)"
    by (simp_all add: ThroughputLogger_init_def)
  have ps: "active_phase_state (exec_state (train_world dw it)) = Some (train_phase_state dw it)"
    and its: "samples (iteration_timer (train_phase_state dw it))
               (iteration_time_key (active_phase (exec_state (train_world dw it)))) = it"
    and dws: "samples (iteration_timer (train_phase_state dw it)) ''data_wait_time'' = dw"
    for dw it
    by (simp_all add: train_world_def train_phase_state_def samples_def active_phase_state_def)
  have nd: "\<not> (2 :: int) dvd 1" by simp
  have a: "maybe_log_for_step ?l1 1 True (train_world [0, 4] [0]) = (Inr (), train_world [0, 4] [0])"
    using throughput_silent_skip [OF i1, where w = "train_world [0, 4] [0]"
        and ps = "train_phase_state [0, 4] [0]" and iteration_time = "[0]"
        and data_wait_time = "[0, 4]" and is_step_end_hook = True and step = 1]
    by (simp add: ps its dws)
  have b: "maybe_log_for_step ?l1 1 True (train_world [1, 2] []) = (Inr (), train_world [1, 2] [])"
    using throughput_silent_skip [OF i1, where w = "train_world [1, 2] []"
        and ps = "train_phase_state [1, 2] []" and iteration_time = "[]"
        and data_wait_time = "[1, 2]" and is_step_end_hook = True and step = 1]
    by (simp add: ps its dws)
  have c: "maybe_log_for_step ?l1 1 True (train_world [1] [1]) = (Inr (), train_world [1] [1])"
    using throughput_silent_skip [OF i1, where w = "train_world [1] [1]"
        and ps = "train_phase_state [1] [1]" and iteration_time = "[1]"
        and data_wait_time = "[1]" and is_step_end_hook = True and step = 1]
    by (simp add: ps its dws)
  have d: "maybe_log_for_step ?l2 1 True (train_world [1, 2] [1]) = (Inr (), train_world [1, 2] [1])"
    using throughput_silent_skip [OF i2, where w = "train_world [1, 2] [1]"
        and is_step_end_hook = True and step = 1] nd
    by simp
  from i1 i2 nd a b c d show ?thesis by simp
qed

end
